theory Spec2Isabelle
  imports Main
begin

section \<open>Python values, exceptions and string primitives\<close>

text \<open>
  The plugin is Python 2 code running inside Trac.  Exceptions are values of the type
  \<open>exn\<close>; a computation that may raise returns \<open>exn + 'a\<close>, with \<open>Inl\<close> for the raised
  exception.  Every exception below derives from Python's \<open>Exception\<close>.
  \<open>Unmodelled\<close> is not a Python exception: it marks the format templates that lie
  outside the fragment of the \<open>%\<close> operator modelled here.
\<close>

datatype exn =
    ValueError
  | AttributeError
  | TypeError
  | KeyError string
  | ResourceNotFound string
  | OtherError string
  | Unmodelled

text \<open>
  Strings are lists of characters, read as code points below 256.  \<open>is_space\<close> is
  the whitespace that \<open>unicode.strip()\<close> removes in that range.
\<close>

definition is_space :: "char \<Rightarrow> bool" where
  "is_space c = (c \<in> set [CHR 0x09, CHR 0x0A, CHR 0x0B, CHR 0x0C, CHR 0x0D,
                            CHR 0x1C, CHR 0x1D, CHR 0x1E, CHR 0x1F, CHR '' '',
                            CHR 0x85, CHR 0xA0])"

text \<open>\<open>s.strip()\<close>: whitespace removed at both ends.\<close>

definition py_strip :: "string \<Rightarrow> string" where
  "py_strip s = rev (dropWhile is_space (rev (dropWhile is_space s)))"

text \<open>\<open>s.strip(chars)\<close>: every leading and trailing character that occurs in \<open>chars\<close>.\<close>

definition py_strip_chars :: "string \<Rightarrow> string \<Rightarrow> string" where
  "py_strip_chars chars s =
     rev (dropWhile (\<lambda>c. c \<in> set chars) (rev (dropWhile (\<lambda>c. c \<in> set chars) s)))"

text \<open>
  \<open>s.split(sep)\<close> for a non-empty separator: the pieces between the non-overlapping
  occurrences of \<open>sep\<close>, scanned from the left; \<open>''.split(sep)\<close> is \<open>['']\<close>.  The
  source only splits at \<open>','\<close> and \<open>'->'\<close>; an empty separator (a \<open>ValueError\<close> in
  Python) never occurs, and the model then splits nowhere.
\<close>

function split_from :: "string \<Rightarrow> string \<Rightarrow> string \<Rightarrow> string list" where
  "split_from sep acc [] = [rev acc]"
| "split_from sep acc (c # cs) =
     (if sep \<noteq> [] \<and> take (length sep) (c # cs) = sep
      then rev acc # split_from sep [] (drop (length sep) (c # cs))
      else split_from sep (c # acc) cs)"
  by pat_completeness auto
termination
  by (relation "measure (\<lambda>(sep, acc, s). length s)") auto

definition py_split :: "string \<Rightarrow> string \<Rightarrow> string list" where
  "py_split sep s = split_from sep [] s"

text \<open>\<open>str(n)\<close> for an integer, and for \<open>ticket.id\<close>, which is \<open>None\<close> on a new ticket.\<close>

fun digits :: "nat \<Rightarrow> string" where
  "digits n = (if n < 10 then [''0123456789'' ! n]
               else digits (n div 10) @ [''0123456789'' ! (n mod 10)])"

declare digits.simps [simp del]

definition py_str_int :: "int \<Rightarrow> string" where
  "py_str_int i = (if i < 0 then CHR ''-'' # digits (nat (- i)) else digits (nat i))"

definition py_str_id :: "int option \<Rightarrow> string" where
  "py_str_id i = (case i of None \<Rightarrow> ''None'' | Some n \<Rightarrow> py_str_int n)"

text \<open>
  \<open>fmt % arg\<close> with one string argument, for templates built from plain text,
  \<open>%s\<close> and \<open>%%\<close>.  Python scans the template from the left: \<open>%s\<close> consumes the
  argument (a second \<open>%s\<close> raises \<open>TypeError\<close>, not enough arguments), a lone \<open>%\<close> at
  the end raises \<open>ValueError\<close> (incomplete format), and an argument left over at the
  end raises \<open>TypeError\<close> (not all arguments converted).  The flag \<open>used\<close> records that
  the argument has been consumed.  Any other conversion (flags, widths, \<open>%r\<close>, \<open>%d\<close>,
  mapping keys) is outside the fragment and answers \<open>Unmodelled\<close>.
\<close>

definition prepend :: "string \<Rightarrow> exn + string \<Rightarrow> exn + string" where
  "prepend p r = (case r of Inl e \<Rightarrow> Inl e | Inr s \<Rightarrow> Inr (p @ s))"

fun format_from :: "string \<Rightarrow> string \<Rightarrow> bool \<Rightarrow> exn + string" where
  "format_from [] a used = (if used then Inr [] else Inl TypeError)"
| "format_from [c] a used =
     (if c = CHR ''%'' then Inl ValueError
      else if used then Inr [c] else Inl TypeError)"
| "format_from (c # d # r) a used =
     (if c = CHR ''%'' then
        (if d = CHR ''s'' then
           (if used then Inl TypeError else prepend a (format_from r a True))
         else if d = CHR ''%'' then prepend [CHR ''%''] (format_from r a used)
         else Inl Unmodelled)
      else prepend [c] (format_from (d # r) a used))"

definition py_format :: "string \<Rightarrow> string \<Rightarrow> exn + string" where
  "py_format fmt a = format_from fmt a False"


section \<open>Data model\<close>

text \<open>
  A ticket: \<open>ticket.id\<close> (\<open>None\<close> until the ticket is stored), the field values read
  by \<open>ticket[name]\<close> (Trac answers \<open>None\<close> for a field without a value), the snapshot
  \<open>ticket._old\<close> of the fields already changed in the current edit, and the comments
  recorded by \<open>save_changes\<close> as (time, author, comment).
\<close>

record ticket =
  tid :: "int option"
  tvalues :: "string \<rightharpoonup> string"
  old_fields :: "string \<rightharpoonup> string option"
  changelog :: "(nat \<times> string \<times> string) list"

definition ticket_exists :: "ticket \<Rightarrow> bool" where
  "ticket_exists t = (tid t \<noteq> None)"

text \<open>A change-set: field name to new value, where the value may be \<open>None\<close>.\<close>

type_synonym changes = "string \<rightharpoonup> string option"

text \<open>A submitted form value: a string, or the \<open>True\<close> stored under \<open>'preview'\<close>.\<close>

datatype argval = AStr string | ABool bool

text \<open>
  A log record as handed to the logger: level, message template and arguments
  (the logger formats them later).
\<close>

datatype log_level = Warning | Error | Exception

datatype log_arg = LStr string | LInt int | LExn exn

type_synonym log_entry = "log_level \<times> string \<times> log_arg list"

text \<open>\<open>TicketChangeEvent(category, target, time, author)\<close>, the target given by its id.\<close>

record event =
  category :: string
  target :: int
  etime :: nat
  eauthor :: string

record component =
  cname :: string
  cowner :: "string option"

record milestone =
  mname :: string
  is_completed :: bool

text \<open>
  Everything the operations can change: the submitted form values \<open>req.args\<close>, the
  warnings attached to the request by \<open>add_warning\<close>, the server log, the standard
  output, the ticket store, the notification events handed to the notification
  system and the command lines of the processes spawned.
\<close>

record state =
  req_args :: "string \<rightharpoonup> argval"
  req_warnings :: "string list"
  env_log :: "log_entry list"
  std_out :: "string list"
  tickets :: "int \<rightharpoonup> ticket"
  notified :: "event list"
  spawned :: "string list list"

text \<open>
  The host (Trac, the operating system) as the operations read it.  None of this is
  code of the plugin, so it is a parameter:
  \<^item> \<open>env_path\<close>: the environment root \<open>env.path\<close>;
  \<^item> \<open>authname\<close>: \<open>req.authname\<close>;
  \<^item> \<open>config\<close>: the \<open>[ticket-workflow]\<close> section; \<open>config.get\<close> answers \<open>''\<close> for a
    missing key;
  \<^item> \<open>config_list\<close>: \<open>config.getlist('ticket-workflow', key)\<close>;
  \<^item> \<open>actions\<close>: the workflow's \<open>actions\<close> dictionary, action name to attributes;
  \<^item> \<open>int_of\<close>: \<open>int(s)\<close> as \<open>model.Ticket\<close> applies it to its id (\<open>None\<close> when
    \<open>int\<close> raises);
  \<^item> \<open>model_Component\<close>, \<open>model_Milestone\<close>: the constructors of Trac's model classes;
  \<^item> \<open>db_oldvalue\<close>: the rows of
    \<open>SELECT oldvalue FROM ticket_change WHERE ticket=%s AND field=... ORDER BY time DESC LIMIT 1\<close>,
    each row given by its one (nullable) column;
  \<^item> \<open>path_exists\<close>: \<open>os.path.exists\<close>;
  \<^item> \<open>call\<close>: \<open>subprocess.call\<close>, the exit code of the process or the exception raised;
  \<^item> \<open>notify\<close>: \<open>NotificationSystem.notify\<close>, \<open>Some e\<close> when it raises \<open>e\<close>;
  \<^item> \<open>now\<close>: \<open>datetime.now(utc)\<close>.
\<close>

record host =
  env_path :: string
  authname :: string
  config :: "string \<rightharpoonup> string"
  config_list :: "string \<Rightarrow> string list"
  actions :: "string \<rightharpoonup> (string \<rightharpoonup> string)"
  int_of :: "string \<Rightarrow> int option"
  model_Component :: "string option \<Rightarrow> exn + component"
  model_Milestone :: "string \<Rightarrow> exn + milestone"
  db_oldvalue :: "int option \<Rightarrow> string \<Rightarrow> string option list"
  path_exists :: "string \<Rightarrow> bool"
  call :: "string list \<Rightarrow> exn + int"
  notify :: "event \<Rightarrow> exn option"
  now :: nat

definition config_get :: "host \<Rightarrow> string \<Rightarrow> string" where
  "config_get h k = (case config h k of None \<Rightarrow> [] | Some v \<Rightarrow> v)"

text \<open>
  \<open>model.Ticket(env, num)\<close>.  Trac's \<open>Ticket._fetch_ticket\<close> queries the row only
  when \<open>Ticket.id_is_valid(num)\<close> holds, that is \<open>0 < int(num) <= 1 << 31\<close>, and
  \<open>False\<close> when \<open>int\<close> raises; without a row it raises
  \<open>ResourceNotFound("Ticket %(id)s does not exist.")\<close>, the id being the text it was
  given.  So a reference that is not a number is answered by \<open>ResourceNotFound\<close> too.
\<close>

definition id_is_valid :: "host \<Rightarrow> string \<Rightarrow> bool" where
  "id_is_valid h num =
     (case int_of h num of None \<Rightarrow> False | Some n \<Rightarrow> 0 < n \<and> n \<le> 2 ^ 31)"

definition missing_message :: "string \<Rightarrow> string" where
  "missing_message num = ''Ticket '' @ num @ '' does not exist.''"

definition model_Ticket :: "host \<Rightarrow> state \<Rightarrow> string \<Rightarrow> exn + (int \<times> ticket)" where
  "model_Ticket h s num =
     (case (if id_is_valid h num then int_of h num else None) of
        None \<Rightarrow> Inl (ResourceNotFound (missing_message num))
      | Some n \<Rightarrow>
          (case tickets s n of
             None \<Rightarrow> Inl (ResourceNotFound (missing_message num))
           | Some t \<Rightarrow> Inr (n, t)))"

text \<open>
  \<open>xticket.save_changes(author, comment, when)\<close> on a ticket just loaded: with no
  field change and an empty comment nothing is stored; otherwise the comment is
  recorded on the stored ticket.
\<close>

definition save_changes :: "int \<Rightarrow> ticket \<Rightarrow> string \<Rightarrow> string \<Rightarrow> nat \<Rightarrow> state \<Rightarrow> state" where
  "save_changes n t author comment when s =
     (if comment = [] then s
      else s\<lparr>tickets := (tickets s)(n \<mapsto> t\<lparr>changelog := changelog t @ [(when, author, comment)]\<rparr>)\<rparr>)"

text \<open>
  \<open>add_warning(req, msg)\<close>: Trac appends the message to the warnings of the request
  unless the same message is already among them.  The logger appends a record.
\<close>

definition add_warning :: "string \<Rightarrow> state \<Rightarrow> state" where
  "add_warning msg s =
     (if msg \<in> set (req_warnings s) then s
      else s\<lparr>req_warnings := req_warnings s @ [msg]\<rparr>)"

definition log_to :: "log_level \<Rightarrow> string \<Rightarrow> log_arg list \<Rightarrow> state \<Rightarrow> state" where
  "log_to lvl msg as s = s\<lparr>env_log := env_log s @ [(lvl, msg, as)]\<rparr>"

text \<open>The operations, by the class that implements each.\<close>

datatype operation =
    OwnerReporter | OwnerComponent | OwnerField | FieldAuthor | FieldsClear
  | OwnerPrevious | StatusPrevious | RunExternal | Triage | XRef
  | ResetMilestone | SetState

definition op_name :: "operation \<Rightarrow> string" where
  "op_name op = (case op of
      OwnerReporter \<Rightarrow> ''set_owner_to_reporter''
    | OwnerComponent \<Rightarrow> ''set_owner_to_component_owner''
    | OwnerField \<Rightarrow> ''set_owner_to_field''
    | FieldAuthor \<Rightarrow> ''set_field_to_author''
    | FieldsClear \<Rightarrow> ''clear_fields''
    | OwnerPrevious \<Rightarrow> ''set_owner_to_previous''
    | StatusPrevious \<Rightarrow> ''set_status_to_previous''
    | RunExternal \<Rightarrow> ''run_external''
    | Triage \<Rightarrow> ''triage''
    | XRef \<Rightarrow> ''xref''
    | ResetMilestone \<Rightarrow> ''reset_milestone''
    | SetState \<Rightarrow> ''set_state'')"

section \<open>Computing the changes of each operation\<close>

text \<open>
  \<open>get_ticket_changes(req, ticket, action)\<close> of each class.  The result is the
  change-set or the exception raised, together with the state the call leaves.
\<close>

type_synonym 'a result = "(exn + 'a) \<times> state"

text \<open>\<open>TicketWorkflowOpOwnerReporter\<close>: \<open>{'owner': ticket['reporter']}\<close>.\<close>

definition owner_reporter_changes :: "ticket \<Rightarrow> state \<Rightarrow> changes result" where
  "owner_reporter_changes t s = (Inr [''owner'' \<mapsto> tvalues t ''reporter''], s)"

text \<open>
  \<open>TicketWorkflowOpOwnerComponent._new_owner\<close>: the owner of the component named by
  the ticket; a \<open>ResourceNotFound\<close> is logged as a warning and answered by \<open>None\<close>.
\<close>

definition owner_component_new_owner :: "host \<Rightarrow> ticket \<Rightarrow> state \<Rightarrow> string option result" where
  "owner_component_new_owner h t s =
     (case model_Component h (tvalues t ''component'') of
        Inr c \<Rightarrow> (Inr (cowner c), s)
      | Inl (ResourceNotFound m) \<Rightarrow>
          (Inr None, log_to Warning ''In %s, %s'' [LStr (op_name OwnerComponent), LStr m] s)
      | Inl e \<Rightarrow> (Inl e, s))"

definition owner_component_changes :: "host \<Rightarrow> ticket \<Rightarrow> state \<Rightarrow> changes result" where
  "owner_component_changes h t s =
     (case owner_component_new_owner h t s of
        (Inl e, s') \<Rightarrow> (Inl e, s')
      | (Inr new_owner, s') \<Rightarrow> (Inr [''owner'' \<mapsto> new_owner], s'))"

text \<open>
  \<open>TicketWorkflowOpOwnerField\<close>: the value of the field named by
  \<open><action>.set_owner_to_field\<close>.
\<close>

definition owner_field_changes :: "host \<Rightarrow> ticket \<Rightarrow> string \<Rightarrow> state \<Rightarrow> changes result" where
  "owner_field_changes h t action s =
     (let field = py_strip (config_get h (action @ ''.'' @ op_name OwnerField))
      in (Inr [''owner'' \<mapsto> tvalues t field], s))"

text \<open>
  \<open>TicketWorkflowOpFieldAuthor\<close>: the field named by \<open><action>.set_field_to_author\<close>
  is set to \<open>req.authname\<close>.
\<close>

definition field_author_changes :: "host \<Rightarrow> ticket \<Rightarrow> string \<Rightarrow> state \<Rightarrow> changes result" where
  "field_author_changes h t action s =
     (let field = py_strip (config_get h (action @ ''.'' @ op_name FieldAuthor))
      in (Inr [field \<mapsto> Some (authname h)], s))"

text \<open>
  \<open>TicketWorkflowOpFieldsClear\<close>: the dictionary comprehension
  \<open>{x: '' for x in self._field_names(action, ticket)}\<close> stores one entry after the
  other, a later one replacing an earlier one under the same key.
\<close>

definition field_names :: "host \<Rightarrow> string \<Rightarrow> string list" where
  "field_names h action = config_list h (action @ ''.'' @ op_name FieldsClear)"

definition fields_clear_changes :: "host \<Rightarrow> ticket \<Rightarrow> string \<Rightarrow> state \<Rightarrow> changes result" where
  "fields_clear_changes h t action s =
     (Inr (foldl (\<lambda>m x. m(x \<mapsto> Some [])) Map.empty (field_names h action)), s)"

text \<open>
  \<open>TicketWorkflowOpOwnerPrevious\<close> and \<open>TicketWorkflowOpStatusPrevious\<close>:
  \<open>rows[0][0] if rows else ...\<close> over the history query.
\<close>

definition owner_previous_changes :: "host \<Rightarrow> ticket \<Rightarrow> state \<Rightarrow> changes result" where
  "owner_previous_changes h t s =
     (case db_oldvalue h (tid t) ''owner'' of
        [] \<Rightarrow> (Inr [''owner'' \<mapsto> tvalues t ''owner''], s)
      | r # _ \<Rightarrow> (Inr [''owner'' \<mapsto> r], s))"

definition status_previous_changes :: "host \<Rightarrow> ticket \<Rightarrow> state \<Rightarrow> changes result" where
  "status_previous_changes h t s =
     (case db_oldvalue h (tid t) ''status'' of
        [] \<Rightarrow> (Inr [''status'' \<mapsto> Some ''new''], s)
      | r # _ \<Rightarrow> (Inr [''status'' \<mapsto> r], s))"

text \<open>\<open>TicketWorkflowOpRunExternal\<close>: no changes.\<close>

definition run_external_changes :: "state \<Rightarrow> changes result" where
  "run_external_changes s = (Inr Map.empty, s)"

text \<open>
  \<open>TicketWorkflowOpTriage._new_status\<close>.  The loop over the clauses: each clause is
  split at \<open>'->'\<close> and unpacked into \<open>value, status\<close> (anything but two pieces raises
  \<open>ValueError\<close>), then \<open>value\<close> is compared with \<open>ticket[field].strip()\<close> (an
  \<open>AttributeError\<close> when the field has no value).  \<open>Inr (Some status)\<close> is the
  \<open>break\<close>, \<open>Inr None\<close> the loop running to its \<open>else\<close> branch.
\<close>

fun triage_loop :: "string list \<Rightarrow> string option \<Rightarrow> exn + string option" where
  "triage_loop [] fv = Inr None"
| "triage_loop (transition # rest) fv =
     (case map py_strip (py_split ''->'' transition) of
        [v, status] \<Rightarrow>
          (case fv of
             None \<Rightarrow> Inl AttributeError
           | Some x \<Rightarrow> if v = py_strip x then Inr (Some status) else triage_loop rest fv)
      | _ \<Rightarrow> Inl ValueError)"

definition bad_triage_message :: string where
  "bad_triage_message = ''Bad configuration for 'triage' operation in action '%s'' @ [CHR 0x27]"

definition triage_new_status :: "host \<Rightarrow> ticket \<Rightarrow> string \<Rightarrow> state \<Rightarrow> string result" where
  "triage_new_status h t action s =
     (let field = py_strip (config_get h (action @ ''.triage_field''));
          transitions = py_strip (config_get h (action @ ''.triage_split''))
      in case triage_loop (map py_strip (py_split '','' transitions)) (tvalues t field) of
           Inl e \<Rightarrow> (Inl e, s)
         | Inr (Some status) \<Rightarrow> (Inr status, s)
         | Inr None \<Rightarrow> (Inr ''new'', log_to Error bad_triage_message [LStr action] s))"

definition triage_changes :: "host \<Rightarrow> ticket \<Rightarrow> string \<Rightarrow> state \<Rightarrow> changes result" where
  "triage_changes h t action s =
     (case triage_new_status h t action s of
        (Inl e, s') \<Rightarrow> (Inl e, s')
      | (Inr status, s') \<Rightarrow> (Inr [''status'' \<mapsto> Some status], s'))"

text \<open>
  \<open>TicketWorkflowOpXRef.get_ticket_changes\<close>.  Outside preview mode the submitted
  reference is read from \<open>req.args\<close> (\<open>.strip('#')\<close> on a missing value raises
  \<open>AttributeError\<close>) and the referenced ticket is loaded.  \<open>ValueError\<close> and
  \<open>ResourceNotFound\<close> store \<open>True\<close> under \<open>'preview'\<close>, add a warning and return no
  changes.  Otherwise the sentence built from \<open><action>.xref_local\<close> is written to
  \<open>req.args['comment']\<close> as
  \<open>"%s%s%s" % (comment, oldcomment and "[[BR]]" or "", oldcomment or "")\<close>.
\<close>

definition xref_id :: "string \<Rightarrow> string" where
  "xref_id action = ''action_'' @ action @ ''_xref''"

definition xref_local_default :: string where
  "xref_local_default = ''Ticket %s was marked as related to this ticket''"

definition not_a_number_warning :: "string \<Rightarrow> string" where
  "not_a_number_warning ticket_num =
     ''The cross-referenced ticket number '' @ [CHR 0x22] @ ticket_num @ [CHR 0x22]
       @ '' was not a number''"

definition unable_warning :: "string \<Rightarrow> string \<Rightarrow> string" where
  "unable_warning ticket_num msg =
     ''Unable to cross-reference Ticket #'' @ ticket_num @ '' ('' @ msg @ '').''"

text \<open>Truth value and \<open>str\<close> of a value read by \<open>req.args.get\<close>.\<close>

definition truthy :: "argval option \<Rightarrow> bool" where
  "truthy v = (case v of None \<Rightarrow> False | Some (AStr x) \<Rightarrow> x \<noteq> [] | Some (ABool b) \<Rightarrow> b)"

definition py_str_arg :: "argval \<Rightarrow> string" where
  "py_str_arg v = (case v of AStr x \<Rightarrow> x | ABool b \<Rightarrow> if b then ''True'' else ''False'')"

definition or_empty :: "argval option \<Rightarrow> string" where
  "or_empty v = (case v of None \<Rightarrow> [] | Some x \<Rightarrow> if truthy v then py_str_arg x else [])"

definition join_comment :: "string \<Rightarrow> argval option \<Rightarrow> string" where
  "join_comment comment oldcomment =
     comment @ (if truthy oldcomment then ''[[BR]]'' else []) @ or_empty oldcomment"

definition xref_changes :: "host \<Rightarrow> ticket \<Rightarrow> string \<Rightarrow> state \<Rightarrow> changes result" where
  "xref_changes h t action s =
     (if req_args s ''preview'' \<noteq> None then (Inr Map.empty, s)
      else
        (case req_args s (xref_id action) of
           None \<Rightarrow> (Inl AttributeError, s)
         | Some (ABool b) \<Rightarrow> (Inl AttributeError, s)
         | Some (AStr submitted) \<Rightarrow>
             (let ticket_num = py_strip_chars ''#'' submitted in
              case model_Ticket h s ticket_num of
                Inl ValueError \<Rightarrow>
                  (Inr Map.empty,
                   add_warning (not_a_number_warning ticket_num)
                     (s\<lparr>req_args := (req_args s)(''preview'' \<mapsto> ABool True)\<rparr>))
              | Inl (ResourceNotFound msg) \<Rightarrow>
                  (Inr Map.empty,
                   add_warning (unable_warning ticket_num msg)
                     (s\<lparr>req_args := (req_args s)(''preview'' \<mapsto> ABool True)\<rparr>))
              | Inl e \<Rightarrow> (Inl e, s)
              | Inr xticket \<Rightarrow>
                  (let oldcomment = req_args s ''comment'' in
                   case actions h action of
                     None \<Rightarrow> (Inl (KeyError action), s)
                   | Some attrs \<Rightarrow>
                       (let format_string =
                              (case attrs ''xref_local'' of
                                 None \<Rightarrow> xref_local_default
                               | Some f \<Rightarrow> f)
                        in if format_string \<noteq> [] then
                             (case py_format format_string (''#'' @ ticket_num) of
                                Inl e \<Rightarrow> (Inl e, s)
                              | Inr comment \<Rightarrow>
                                  (Inr Map.empty,
                                   s\<lparr>req_args := (req_args s)
                                       (''comment'' \<mapsto> AStr (join_comment comment oldcomment))\<rparr>))
                           else (Inr Map.empty, s))))))"

text \<open>
  \<open>TicketWorkflowOpResetMilestone._fetch_milestone\<close>: the milestone named by the
  ticket, \<open>None\<close> when the field is empty or the milestone is missing (then a warning
  is logged).
\<close>

definition fetch_milestone :: "host \<Rightarrow> ticket \<Rightarrow> state \<Rightarrow> milestone option result" where
  "fetch_milestone h t s =
     (case tvalues t ''milestone'' of
        None \<Rightarrow> (Inr None, s)
      | Some name \<Rightarrow>
          if name = [] then (Inr None, s)
          else
            (case model_Milestone h name of
               Inr m \<Rightarrow> (Inr (Some m), s)
             | Inl (ResourceNotFound msg) \<Rightarrow>
                 (Inr None,
                  log_to Warning ''In %s, %s'' [LStr (op_name ResetMilestone), LStr msg] s)
             | Inl e \<Rightarrow> (Inl e, s)))"

definition completed :: "milestone option \<Rightarrow> bool" where
  "completed m = (case m of None \<Rightarrow> False | Some x \<Rightarrow> is_completed x)"

definition reset_milestone_changes :: "host \<Rightarrow> ticket \<Rightarrow> state \<Rightarrow> changes result" where
  "reset_milestone_changes h t s =
     (case fetch_milestone h t s of
        (Inl e, s') \<Rightarrow> (Inl e, s')
      | (Inr m, s') \<Rightarrow>
          if completed m then (Inr [''milestone'' \<mapsto> Some []], s') else (Inr Map.empty, s'))"

text \<open>
  \<open>TicketWorkflowOpSetState.get_ticket_changes\<close>: \<open>actions[action]['newstate']\<close>
  raises \<open>KeyError\<close> for a missing action or attribute.
\<close>

definition action_attr :: "host \<Rightarrow> string \<Rightarrow> string \<Rightarrow> exn + string" where
  "action_attr h action key =
     (case actions h action of
        None \<Rightarrow> Inl (KeyError action)
      | Some attrs \<Rightarrow> (case attrs key of None \<Rightarrow> Inl (KeyError key) | Some v \<Rightarrow> Inr v))"

definition set_state_changes :: "host \<Rightarrow> ticket \<Rightarrow> string \<Rightarrow> state \<Rightarrow> changes result" where
  "set_state_changes h t action s =
     (case action_attr h action ''newstate'' of
        Inl e \<Rightarrow> (Inl e, s)
      | Inr newstate \<Rightarrow>
          if Some newstate = tvalues t ''status'' then (Inr Map.empty, s)
          else (Inr [''status'' \<mapsto> Some newstate], s))"

text \<open>The method of the class that implements the operation.\<close>

definition get_ticket_changes ::
  "host \<Rightarrow> operation \<Rightarrow> ticket \<Rightarrow> string \<Rightarrow> state \<Rightarrow> changes result" where
  "get_ticket_changes h op t action s =
     (case op of
        OwnerReporter \<Rightarrow> owner_reporter_changes t s
      | OwnerComponent \<Rightarrow> owner_component_changes h t s
      | OwnerField \<Rightarrow> owner_field_changes h t action s
      | FieldAuthor \<Rightarrow> field_author_changes h t action s
      | FieldsClear \<Rightarrow> fields_clear_changes h t action s
      | OwnerPrevious \<Rightarrow> owner_previous_changes h t s
      | StatusPrevious \<Rightarrow> status_previous_changes h t s
      | RunExternal \<Rightarrow> run_external_changes s
      | Triage \<Rightarrow> triage_changes h t action s
      | XRef \<Rightarrow> xref_changes h t action s
      | ResetMilestone \<Rightarrow> reset_milestone_changes h t s
      | SetState \<Rightarrow> set_state_changes h t action s)"

section \<open>Rendering the hint\<close>

text \<open>
  \<open>render_ticket_action_control\<close> of the set-state and the milestone-reset
  operations: label, control and hint.  The control is the empty string in both.
  The translation function \<open>_\<close> is taken without a catalogue: it fills the English
  template.
\<close>

definition get_hint_to_change_state :: "ticket \<Rightarrow> string \<Rightarrow> string" where
  "get_hint_to_change_state t status =
     (if tvalues t ''status'' = None
      then ''The status will be ''  @ [CHR 0x27] @ status @ [CHR 0x27]
      else ''Next status will be '' @ [CHR 0x27] @ status @ [CHR 0x27])"

definition set_state_render ::
  "host \<Rightarrow> ticket \<Rightarrow> string \<Rightarrow> state \<Rightarrow> (string \<times> string \<times> string) result" where
  "set_state_render h t action s =
     (case action_attr h action ''name'' of
        Inl e \<Rightarrow> (Inl e, s)
      | Inr label \<Rightarrow>
          (case action_attr h action ''newstate'' of
             Inl e \<Rightarrow> (Inl e, s)
           | Inr newstate \<Rightarrow>
               if Some newstate = tvalues t ''status'' then (Inr (label, [], []), s)
               else (Inr (label, [], get_hint_to_change_state t newstate), s)))"

definition reset_milestone_render ::
  "host \<Rightarrow> ticket \<Rightarrow> string \<Rightarrow> state \<Rightarrow> (string \<times> string \<times> string) result" where
  "reset_milestone_render h t action s =
     (case action_attr h action ''label'' of
        Inl e \<Rightarrow> (Inl e, s)
      | Inr label \<Rightarrow>
          (case fetch_milestone h t s of
             (Inl e, s') \<Rightarrow> (Inl e, s')
           | (Inr m, s') \<Rightarrow>
               if completed m then (Inr (label, [], ''The milestone will be reset.''), s')
               else (Inr (label, [], []), s')))"

section \<open>Side effects\<close>

text \<open>
  \<open>os.path.join\<close> (POSIX): a component that starts with \<open>/\<close> replaces what came
  before it; otherwise it is appended after one \<open>/\<close>.
\<close>

definition path_join :: "string \<Rightarrow> string \<Rightarrow> string" where
  "path_join a b =
     (if b \<noteq> [] \<and> hd b = CHR ''/'' then b
      else if a = [] \<or> last a = CHR ''/'' then a @ b
      else a @ ''/'' @ b)"

definition extensions :: "string list" where
  "extensions = ['''', ''.exe'', ''.cmd'', ''.bat'']"

text \<open>
  The \<open>for extension in (...)\<close> loop: the first extension under which the script
  exists, \<open>None\<close> when the loop reaches its \<open>else\<close> branch.
\<close>

fun probe :: "host \<Rightarrow> string \<Rightarrow> string list \<Rightarrow> string option" where
  "probe h script [] = None"
| "probe h script (extension # rest) =
     (if path_exists h (script @ extension) then Some (script @ extension)
      else probe h script rest)"

definition not_found_message :: string where
  "not_found_message =
     ''Error in ticket workflow config; could not find external command to run for %s in %s''"

definition bad_exit_message :: string where
  "bad_exit_message = ''External script %r exited with return code %s.''"

text \<open>
  \<open>TicketWorkflowOpRunExternal.apply_action_side_effects\<close>.  \<open>spawned\<close> records
  the command line handed to \<open>subprocess.call\<close>.
\<close>

definition run_external_side_effects ::
  "host \<Rightarrow> ticket \<Rightarrow> string \<Rightarrow> state \<Rightarrow> unit result" where
  "run_external_side_effects h t action s =
     (let s1 = s\<lparr>std_out := std_out s @ [''running external script for '' @ action]\<rparr>;
          script = path_join (path_join (env_path h) ''hooks'') action
      in case probe h script extensions of
           None \<Rightarrow>
             (Inr (),
              log_to Error not_found_message
                [LStr action, LStr (path_join (env_path h) ''hooks'')] s1)
         | Some found \<Rightarrow>
             (let cmd = [found, py_str_id (tid t), authname h];
                  s2 = s1\<lparr>spawned := spawned s1 @ [cmd]\<rparr>
              in case call h cmd of
                   Inl e \<Rightarrow> (Inl e, s2)
                 | Inr retval \<Rightarrow>
                     if retval \<noteq> 0
                     then (Inr (), log_to Error bad_exit_message [LStr found, LInt retval] s2)
                     else (Inr (), s2)))"

text \<open>
  \<open>TicketWorkflowOpXRef.apply_action_side_effects\<close>: the comment built from
  \<open><action>.xref\<close> is saved on the referenced ticket, then the notification is
  dispatched inside \<open>try ... except Exception\<close>.
\<close>

definition xref_default :: string where
  "xref_default = ''Ticket %s is related to this ticket''"

definition notify_failure_message :: string where
  "notify_failure_message = ''Failure sending notification on change to ticket #%s: %s''"

definition xref_side_effects :: "host \<Rightarrow> ticket \<Rightarrow> string \<Rightarrow> state \<Rightarrow> unit result" where
  "xref_side_effects h t action s =
     (case req_args s (xref_id action) of
        None \<Rightarrow> (Inl AttributeError, s)
      | Some (ABool b) \<Rightarrow> (Inl AttributeError, s)
      | Some (AStr submitted) \<Rightarrow>
          (let ticketnum = py_strip_chars ''#'' submitted;
               author = authname h
           in case actions h action of
                None \<Rightarrow> (Inl (KeyError action), s)
              | Some attrs \<Rightarrow>
                  (let format_string =
                         (case attrs ''xref'' of None \<Rightarrow> xref_default | Some f \<Rightarrow> f)
                   in case py_format format_string (''#'' @ py_str_id (tid t)) of
                        Inl e \<Rightarrow> (Inl e, s)
                      | Inr comment \<Rightarrow>
                          (case model_Ticket h s ticketnum of
                             Inl e \<Rightarrow> (Inl e, s)
                           | Inr (n, xticket) \<Rightarrow>
                               (let s1 = save_changes n xticket author comment (now h) s;
                                    ev = \<lparr>category = ''changed'', target = n,
                                           etime = now h, eauthor = author\<rparr>;
                                    s2 = s1\<lparr>notified := notified s1 @ [ev]\<rparr>
                                in case notify h ev of
                                     None \<Rightarrow> (Inr (), s2)
                                   | Some e \<Rightarrow>
                                       (Inr (),
                                        log_to Exception notify_failure_message
                                          [LStr ticketnum, LExn e] s2))))))"

text \<open>The base class does nothing; two operations override it.\<close>

definition apply_action_side_effects ::
  "host \<Rightarrow> operation \<Rightarrow> ticket \<Rightarrow> string \<Rightarrow> state \<Rightarrow> unit result" where
  "apply_action_side_effects h op t action s =
     (case op of
        RunExternal \<Rightarrow> run_external_side_effects h t action s
      | XRef \<Rightarrow> xref_side_effects h t action s
      | _ \<Rightarrow> (Inr (), s))"

section \<open>The triage table as the specification reads it\<close>

text \<open>
  The specification describes triage as a first-match lookup in a table of
  (value, status) pairs.  \<open>first_match\<close> is that lookup; \<open>parses_to\<close> says that a
  clause of the configuration string has exactly one \<open>->\<close> and the given trimmed sides.
\<close>

definition first_match :: "(string \<times> string) list \<Rightarrow> string \<Rightarrow> string option" where
  "first_match tbl v = map_option snd (List.find (\<lambda>(a, b). a = v) tbl)"

definition parses_to :: "string \<Rightarrow> string \<times> string \<Rightarrow> bool" where
  "parses_to clause p = (map py_strip (py_split ''->'' clause) = [fst p, snd p])"

section \<open>The completed milestone as the specification reads it\<close>

text \<open>
  The ticket names a milestone, the milestone exists and it is marked completed.
\<close>

definition milestone_done :: "host \<Rightarrow> ticket \<Rightarrow> bool" where
  "milestone_done h t =
     (case tvalues t ''milestone'' of
        None \<Rightarrow> False
      | Some name \<Rightarrow>
          name \<noteq> [] \<and> (case model_Milestone h name of Inr m \<Rightarrow> is_completed m | Inl e \<Rightarrow> False))"

section \<open>A concrete environment\<close>

text \<open>
  An environment under \<open>/srv/trac\<close> used to run the operations on concrete inputs:
  two triage actions (\<open>sort\<close> with a well-formed table, \<open>bad\<close> with a clause that has
  no \<open>->\<close>), two clear-fields actions, a cross-reference action \<open>link\<close> with the default
  templates, a set-state action \<open>reopen\<close>, a hook script \<open>deploy.cmd\<close> that exits
  with code 3, tickets 5 (stored) and 7 (not stored), and a notification system that
  fails.
\<close>

definition demo_host :: host where
  "demo_host = \<lparr>
     env_path = ''/srv/trac'',
     authname = ''alice'',
     config = [''sort.triage_field'' \<mapsto> ''type'',
               ''sort.triage_split'' \<mapsto> ''defect -> new_defect, task -> new_task'',
               ''bad.triage_field'' \<mapsto> ''type'',
               ''bad.triage_split'' \<mapsto> ''defect -> new_defect, task''],
     config_list = (\<lambda>k. if k = ''wipe.clear_fields'' then [''milestone'', ''milestone'']
                        else if k = ''tidy.clear_fields'' then [''milestone'', ''keywords'']
                        else []),
     actions = [''link'' \<mapsto> Map.empty,
                ''reopen'' \<mapsto> [''label'' \<mapsto> ''Reopen'', ''name'' \<mapsto> ''reopen'',
                                    ''newstate'' \<mapsto> ''reopened'']],
     int_of = (\<lambda>x. if x = ''5'' then Some 5 else if x = ''7'' then Some 7 else None),
     model_Component = (\<lambda>n. if n = Some ''core''
                            then Inr \<lparr>cname = ''core'', cowner = Some ''bob''\<rparr>
                            else Inl (ResourceNotFound ''Component does not exist.'')),
     model_Milestone = (\<lambda>n. if n = ''v1'' then Inr \<lparr>mname = ''v1'', is_completed = True\<rparr>
                            else if n = ''v2'' then Inr \<lparr>mname = ''v2'', is_completed = False\<rparr>
                            else Inl (ResourceNotFound ''Milestone does not exist.'')),
     db_oldvalue = (\<lambda>i f. []),
     path_exists = (\<lambda>p. p = ''/srv/trac/hooks/deploy.cmd''),
     call = (\<lambda>c. Inr 3),
     notify = (\<lambda>e. Some (OtherError ''smtp down'')),
     now = 1000\<rparr>"

definition demo_ticket :: ticket where
  "demo_ticket = \<lparr>
     tid = Some 1,
     tvalues = [''type'' \<mapsto> ''task'', ''status'' \<mapsto> ''closed'',
                ''component'' \<mapsto> ''gone'', ''milestone'' \<mapsto> ''v1''],
     old_fields = Map.empty,
     changelog = []\<rparr>"

definition other_ticket :: ticket where
  "other_ticket = \<lparr>
     tid = Some 5,
     tvalues = [''status'' \<mapsto> ''new''],
     old_fields = Map.empty,
     changelog = []\<rparr>"

definition demo_state :: state where
  "demo_state = \<lparr>
     req_args = [''action_link_xref'' \<mapsto> AStr ''#5'', ''comment'' \<mapsto> AStr ''old''],
     req_warnings = [],
     env_log = [],
     std_out = [],
     tickets = [5 \<mapsto> other_ticket],
     notified = [],
     spawned = []\<rparr>"

section \<open>Properties\<close>

subsection \<open>Triage\<close>

lemma triage_loop_first_match:
  "list_all2 parses_to clauses tbl \<Longrightarrow>
   triage_loop clauses (Some x) = Inr (first_match tbl (py_strip x))"
proof (induction clauses tbl rule: list_all2_induct)
  case Nil
  then show ?case by (simp add: first_match_def)
next
  case (Cons c cs p ps)
  then show ?case
    by (cases p) (simp add: first_match_def parses_to_def)
qed

text \<open>
  The first-match lookup.  When every clause of \<open><action>.triage_split\<close> has exactly
  one \<open>->\<close> and the configured field has a value, the triage operation compares the
  trimmed value with the trimmed left side of each clause in the order of the
  declaration; the first clause that matches gives the new status and nothing is
  logged; when no clause matches, the status is \<open>new\<close> and the configuration error is
  logged.
\<close>

theorem triage_first_match:
  assumes "list_all2 parses_to
             (map py_strip (py_split '','' (py_strip (config_get h (action @ ''.triage_split'')))))
             tbl"
      and "tvalues t (py_strip (config_get h (action @ ''.triage_field''))) = Some x"
  shows "get_ticket_changes h Triage t action s =
           (case first_match tbl (py_strip x) of
              Some status \<Rightarrow> (Inr [''status'' \<mapsto> Some status], s)
            | None \<Rightarrow>
                (Inr [''status'' \<mapsto> Some ''new''],
                 s\<lparr>env_log := env_log s @ [(Error, bad_triage_message, [LStr action])]\<rparr>))"
  using triage_loop_first_match [OF assms(1), of x] assms(2)
  by (simp add: get_ticket_changes_def triage_changes_def triage_new_status_def log_to_def
        split: option.splits)

theorem triage_first_match_witness:
  "get_ticket_changes demo_host Triage demo_ticket ''sort'' demo_state =
     (Inr [''status'' \<mapsto> Some ''new_task''], demo_state)
   \<and> get_ticket_changes demo_host Triage (demo_ticket\<lparr>tvalues := [''type'' \<mapsto> ''  story'']\<rparr>)
         ''sort'' demo_state =
     (Inr [''status'' \<mapsto> Some ''new''],
      demo_state\<lparr>env_log := [(Error, bad_triage_message, [LStr ''sort''])]\<rparr>)"
proof -
  have tbl: "list_all2 parses_to
      (map py_strip (py_split '','' (py_strip (config_get demo_host (''sort'' @ ''.triage_split'')))))
      [(''defect'', ''new_defect''), (''task'', ''new_task'')]"
    by (simp add: parses_to_def demo_host_def config_get_def py_split_def py_strip_def
          is_space_def)
  have fv: "tvalues demo_ticket (py_strip (config_get demo_host (''sort'' @ ''.triage_field'')))
              = Some ''task''"
    by (simp add: demo_host_def demo_ticket_def config_get_def py_strip_def is_space_def)
  have fv': "tvalues (demo_ticket\<lparr>tvalues := [''type'' \<mapsto> ''  story'']\<rparr>)
               (py_strip (config_get demo_host (''sort'' @ ''.triage_field''))) = Some ''  story''"
    by (simp add: demo_host_def config_get_def py_strip_def is_space_def)
  have a: "get_ticket_changes demo_host Triage demo_ticket ''sort'' demo_state =
             (Inr [''status'' \<mapsto> Some ''new_task''], demo_state)"
    using triage_first_match [OF tbl fv, of demo_state]
    by (simp add: first_match_def py_strip_def is_space_def)
  have b: "get_ticket_changes demo_host Triage (demo_ticket\<lparr>tvalues := [''type'' \<mapsto> ''  story'']\<rparr>)
             ''sort'' demo_state =
           (Inr [''status'' \<mapsto> Some ''new''],
            demo_state\<lparr>env_log := [(Error, bad_triage_message, [LStr ''sort''])]\<rparr>)"
    using triage_first_match [OF tbl fv', of demo_state]
    by (simp add: first_match_def py_strip_def is_space_def demo_state_def)
  from a b show ?thesis by simp
qed

text \<open>
  C4.  A field without a value matches no clause, yet the operation does not answer
  it by the default status: with the well-formed table
  \<open>defect -> new_defect, task -> new_task\<close> and a ticket whose field \<open>type\<close> has no
  value, \<open>ticket[field].strip()\<close> raises \<open>AttributeError\<close> at the first clause; no
  change-set is returned and nothing is logged.
\<close>

theorem triage_unset_field_raises:
  "get_ticket_changes demo_host Triage (demo_ticket\<lparr>tvalues := [''status'' \<mapsto> ''new'']\<rparr>)
       ''sort'' demo_state
     = (Inl AttributeError, demo_state)"
  by (simp add: get_ticket_changes_def triage_changes_def triage_new_status_def
        demo_host_def config_get_def py_split_def py_strip_def is_space_def)

text \<open>
  C3.  A malformed table is not answered by the default status: with the table
  \<open>defect -> new_defect, task\<close> and a ticket of type \<open>task\<close>, unpacking the second
  clause raises \<open>ValueError\<close>, no change-set is returned and nothing is logged.  The
  empty table behaves the same way (here the action \<open>none\<close> has no configuration).
\<close>

theorem triage_malformed_raises:
  "get_ticket_changes demo_host Triage demo_ticket ''bad'' demo_state
     = (Inl ValueError, demo_state)
   \<and> get_ticket_changes demo_host Triage demo_ticket ''none'' demo_state
     = (Inl ValueError, demo_state)"
  by (simp add: get_ticket_changes_def triage_changes_def triage_new_status_def
        demo_host_def demo_ticket_def config_get_def py_split_def py_strip_def is_space_def)

subsection \<open>Owner of the component\<close>

text \<open>
  C8.  When the component named by the ticket does not exist (\<open>model.Component\<close>
  raises \<open>ResourceNotFound\<close>), the component-owner operation returns
  \<open>{'owner': None}\<close> and logs one warning; no exception reaches the caller.
\<close>

theorem component_missing_owner_none:
  assumes "model_Component h (tvalues t ''component'') = Inl (ResourceNotFound m)"
  shows "get_ticket_changes h OwnerComponent t action s =
           (Inr [''owner'' \<mapsto> None],
            s\<lparr>env_log := env_log s @
               [(Warning, ''In %s, %s'', [LStr ''set_owner_to_component_owner'', LStr m])]\<rparr>)"
  using assms
  by (simp add: get_ticket_changes_def owner_component_changes_def
        owner_component_new_owner_def log_to_def op_name_def)

theorem component_missing_owner_none_witness:
  "get_ticket_changes demo_host OwnerComponent demo_ticket ''assign'' demo_state =
     (Inr [''owner'' \<mapsto> None],
      demo_state\<lparr>env_log :=
        [(Warning, ''In %s, %s'',
          [LStr ''set_owner_to_component_owner'', LStr ''Component does not exist.''])]\<rparr>)"
proof -
  have "model_Component demo_host (tvalues demo_ticket ''component'')
          = Inl (ResourceNotFound ''Component does not exist.'')"
    by (simp add: demo_host_def demo_ticket_def)
  from component_missing_owner_none [OF this, of "''assign''" demo_state]
  show ?thesis by (simp add: demo_state_def)
qed

subsection \<open>Clearing fields\<close>

lemma foldl_clear_apply:
  "foldl (\<lambda>m x. m(x \<mapsto> Some [])) m0 names k =
     (if k \<in> set names then Some (Some []) else m0 k)"
  by (induction names arbitrary: m0) auto

lemma foldl_clear_dom:
  "dom (foldl (\<lambda>m x. m(x \<mapsto> Some [])) Map.empty names) = set names"
  by (auto simp: foldl_clear_apply dom_def)

text \<open>
  C9, as the claim states it, fails when the configured list repeats a name: the
  action \<open>wipe\<close> is configured with the two names \<open>milestone, milestone\<close> and the
  change-set has one entry.
\<close>

theorem clear_fields_repeated_name:
  "fst (get_ticket_changes demo_host FieldsClear demo_ticket ''wipe'' demo_state)
     = Inr [''milestone'' \<mapsto> Some []]
   \<and> length (field_names demo_host ''wipe'') = 2
   \<and> card (dom [''milestone'' \<mapsto> Some ([] :: string)]) = 1"
  by (simp add: get_ticket_changes_def fields_clear_changes_def field_names_def
        demo_host_def op_name_def)

text \<open>
  C9, amended.  The clear-fields operation returns, for every ticket, the change-set
  whose keys are exactly the configured names, each mapped to the empty string; it
  has N entries when the N configured names are pairwise distinct.  The state is
  left as it was.
\<close>

theorem clear_fields_entries:
  "\<exists>ch. get_ticket_changes h FieldsClear t action s = (Inr ch, s)
        \<and> dom ch = set (field_names h action)
        \<and> (\<forall>k \<in> set (field_names h action). ch k = Some (Some []))
        \<and> (distinct (field_names h action) \<longrightarrow>
             card (dom ch) = length (field_names h action))"
  by (simp add: get_ticket_changes_def fields_clear_changes_def foldl_clear_apply
        foldl_clear_dom distinct_card)

theorem clear_fields_entries_witness:
  "\<exists>ch. get_ticket_changes demo_host FieldsClear demo_ticket ''tidy'' demo_state
           = (Inr ch, demo_state)
        \<and> dom ch = {''milestone'', ''keywords''}
        \<and> ch ''milestone'' = Some (Some [])
        \<and> ch ''keywords'' = Some (Some [])
        \<and> card (dom ch) = 2"
proof -
  have names: "field_names demo_host ''tidy'' = [''milestone'', ''keywords'']"
    by (simp add: field_names_def demo_host_def op_name_def)
  from clear_fields_entries [of demo_host demo_ticket "''tidy''" demo_state]
  obtain ch where ch:
      "get_ticket_changes demo_host FieldsClear demo_ticket ''tidy'' demo_state
         = (Inr ch, demo_state)"
      "dom ch = set (field_names demo_host ''tidy'')"
      "\<forall>k \<in> set (field_names demo_host ''tidy''). ch k = Some (Some [])"
      "distinct (field_names demo_host ''tidy'') \<longrightarrow>
         card (dom ch) = length (field_names demo_host ''tidy'')"
    by blast
  from ch(2) have d: "dom ch = {''milestone'', ''keywords''}"
    by (simp add: names insert_commute)
  from ch(3) have m: "ch ''milestone'' = Some (Some [])" "ch ''keywords'' = Some (Some [])"
    by (simp_all add: names)
  from ch(4) have c: "card (dom ch) = 2"
    by (simp add: names)
  from ch(1) d m c show ?thesis by blast
qed

subsection \<open>Hint and change-set of set-state and milestone-reset\<close>

lemma fetch_milestone_completed:
  "fetch_milestone h t s = (Inr m, s') \<Longrightarrow> completed m = milestone_done h t"
  by (auto simp: fetch_milestone_def completed_def milestone_done_def
           split: option.splits if_splits sum.splits exn.splits)

text \<open>
  C10.  Set-state: for an action with a name and a newstate, rendering and
  computing the changes both return, the hint is non-empty exactly when the
  change-set is non-empty, and that is exactly when newstate differs from the
  ticket's status; the change-set is then \<open>{'status': newstate}\<close>.
  Milestone-reset: for an action with a label, when loading the milestone raises
  nothing but \<open>ResourceNotFound\<close>, both return, the hint is non-empty exactly when
  the change-set is non-empty, and that is exactly when the ticket's milestone
  exists and is completed; the change-set is then \<open>{'milestone': ''}\<close>.
\<close>

theorem hint_iff_changes:
  "(actions h action = Some attrs \<and> attrs ''name'' = Some label
      \<and> attrs ''newstate'' = Some newstate
      \<longrightarrow> (\<exists>hint ch. set_state_render h t action s = (Inr (label, [], hint), s)
             \<and> get_ticket_changes h SetState t action s = (Inr ch, s)
             \<and> (hint \<noteq> []) = (ch \<noteq> Map.empty)
             \<and> (ch \<noteq> Map.empty) = (tvalues t ''status'' \<noteq> Some newstate)
             \<and> (tvalues t ''status'' \<noteq> Some newstate
                  \<longrightarrow> ch = [''status'' \<mapsto> Some newstate])))
   \<and> (actions h action = Some attrs \<and> attrs ''label'' = Some label
        \<and> fetch_milestone h t s = (Inr m, s')
      \<longrightarrow> (\<exists>hint ch. reset_milestone_render h t action s = (Inr (label, [], hint), s')
             \<and> get_ticket_changes h ResetMilestone t action s = (Inr ch, s')
             \<and> (hint \<noteq> []) = (ch \<noteq> Map.empty)
             \<and> (ch \<noteq> Map.empty) = milestone_done h t
             \<and> (milestone_done h t \<longrightarrow> ch = [''milestone'' \<mapsto> Some []])))"
proof (intro conjI impI)
  assume a: "actions h action = Some attrs \<and> attrs ''name'' = Some label
      \<and> attrs ''newstate'' = Some newstate"
  show "\<exists>hint ch. set_state_render h t action s = (Inr (label, [], hint), s)
             \<and> get_ticket_changes h SetState t action s = (Inr ch, s)
             \<and> (hint \<noteq> []) = (ch \<noteq> Map.empty)
             \<and> (ch \<noteq> Map.empty) = (tvalues t ''status'' \<noteq> Some newstate)
             \<and> (tvalues t ''status'' \<noteq> Some newstate
                  \<longrightarrow> ch = [''status'' \<mapsto> Some newstate])"
    using a
    by (auto simp: set_state_render_def get_ticket_changes_def set_state_changes_def
          action_attr_def get_hint_to_change_state_def)
next
  assume a: "actions h action = Some attrs \<and> attrs ''label'' = Some label
        \<and> fetch_milestone h t s = (Inr m, s')"
  then have c: "completed m = milestone_done h t"
    using fetch_milestone_completed by blast
  show "\<exists>hint ch. reset_milestone_render h t action s = (Inr (label, [], hint), s')
             \<and> get_ticket_changes h ResetMilestone t action s = (Inr ch, s')
             \<and> (hint \<noteq> []) = (ch \<noteq> Map.empty)
             \<and> (ch \<noteq> Map.empty) = milestone_done h t
             \<and> (milestone_done h t \<longrightarrow> ch = [''milestone'' \<mapsto> Some []])"
    using a c
    by (auto simp: reset_milestone_render_def get_ticket_changes_def
          reset_milestone_changes_def action_attr_def)
qed

theorem hint_iff_changes_witness:
  "(\<exists>hint. hint \<noteq> []
       \<and> set_state_render demo_host demo_ticket ''reopen'' demo_state
           = (Inr (''reopen'', [], hint), demo_state))
   \<and> get_ticket_changes demo_host SetState demo_ticket ''reopen'' demo_state
       = (Inr [''status'' \<mapsto> Some ''reopened''], demo_state)
   \<and> (\<exists>hint. hint \<noteq> []
       \<and> reset_milestone_render demo_host demo_ticket ''reopen'' demo_state
           = (Inr (''Reopen'', [], hint), demo_state))
   \<and> get_ticket_changes demo_host ResetMilestone demo_ticket ''reopen'' demo_state
       = (Inr [''milestone'' \<mapsto> Some []], demo_state)"
proof -
  define attrs :: "string \<rightharpoonup> string" where
    "attrs = [''label'' \<mapsto> ''Reopen'', ''name'' \<mapsto> ''reopen'', ''newstate'' \<mapsto> ''reopened'']"
  have act: "actions demo_host ''reopen'' = Some attrs"
    by (simp add: demo_host_def attrs_def)
  have nm: "attrs ''name'' = Some ''reopen''" and ns: "attrs ''newstate'' = Some ''reopened''"
    and lb: "attrs ''label'' = Some ''Reopen''"
    by (simp_all add: attrs_def)
  have fm: "fetch_milestone demo_host demo_ticket demo_state
              = (Inr (Some \<lparr>mname = ''v1'', is_completed = True\<rparr>), demo_state)"
    by (simp add: fetch_milestone_def demo_host_def demo_ticket_def)
  have st: "tvalues demo_ticket ''status'' \<noteq> Some ''reopened''"
    by (simp add: demo_ticket_def)
  have md: "milestone_done demo_host demo_ticket"
    by (simp add: milestone_done_def demo_host_def demo_ticket_def)
  from hint_iff_changes [of demo_host "''reopen''" attrs "''reopen''" "''reopened''"
          demo_ticket demo_state] act nm ns
  obtain hint ch where a:
      "set_state_render demo_host demo_ticket ''reopen'' demo_state
         = (Inr (''reopen'', [], hint), demo_state)"
      "get_ticket_changes demo_host SetState demo_ticket ''reopen'' demo_state = (Inr ch, demo_state)"
      "(hint \<noteq> []) = (ch \<noteq> Map.empty)"
      "(ch \<noteq> Map.empty) = (tvalues demo_ticket ''status'' \<noteq> Some ''reopened'')"
      "tvalues demo_ticket ''status'' \<noteq> Some ''reopened''
         \<longrightarrow> ch = [''status'' \<mapsto> Some ''reopened'']"
    by blast
  from a st have one: "(\<exists>hint. hint \<noteq> []
       \<and> set_state_render demo_host demo_ticket ''reopen'' demo_state
           = (Inr (''reopen'', [], hint), demo_state))
   \<and> get_ticket_changes demo_host SetState demo_ticket ''reopen'' demo_state
       = (Inr [''status'' \<mapsto> Some ''reopened''], demo_state)"
    by blast
  from hint_iff_changes [of demo_host "''reopen''" attrs "''Reopen''" "''reopened''"
          demo_ticket demo_state
          "Some \<lparr>mname = ''v1'', is_completed = True\<rparr>" demo_state] act lb fm
  obtain hint' ch' where b:
      "reset_milestone_render demo_host demo_ticket ''reopen'' demo_state
         = (Inr (''Reopen'', [], hint'), demo_state)"
      "get_ticket_changes demo_host ResetMilestone demo_ticket ''reopen'' demo_state
         = (Inr ch', demo_state)"
      "(hint' \<noteq> []) = (ch' \<noteq> Map.empty)"
      "(ch' \<noteq> Map.empty) = milestone_done demo_host demo_ticket"
      "milestone_done demo_host demo_ticket \<longrightarrow> ch' = [''milestone'' \<mapsto> Some []]"
    by blast
  from b md have two: "(\<exists>hint. hint \<noteq> []
       \<and> reset_milestone_render demo_host demo_ticket ''reopen'' demo_state
           = (Inr (''Reopen'', [], hint), demo_state))
   \<and> get_ticket_changes demo_host ResetMilestone demo_ticket ''reopen'' demo_state
       = (Inr [''milestone'' \<mapsto> Some []], demo_state)"
    by blast
  from one two show ?thesis by blast
qed

subsection \<open>Formatting with one argument\<close>

lemma prepend_prepend: "prepend p (prepend q r) = prepend (p @ q) r"
  by (simp add: prepend_def split: sum.splits)

lemma prepend_Nil: "prepend [] r = r"
  by (simp add: prepend_def split: sum.splits)

lemma format_from_plain:
  "CHR ''%'' \<notin> set p \<Longrightarrow> format_from (p @ r) a used = prepend p (format_from r a used)"
proof (induction p)
  case Nil
  then show ?case by (simp add: prepend_Nil)
next
  case (Cons c p)
  show ?case
  proof (cases "p @ r")
    case Nil
    then show ?thesis using Cons.prems by (simp add: prepend_def)
  next
    case (Cons d rest)
    have ne: "c \<noteq> CHR ''%''"
      using Cons.prems by auto
    have "format_from (c # d # rest) a used = prepend [c] (format_from (d # rest) a used)"
      using ne by simp
    with Cons Cons.IH Cons.prems show ?thesis
      by (simp add: prepend_prepend)
  qed
qed

lemma py_format_one:
  assumes "CHR ''%'' \<notin> set p" and "CHR ''%'' \<notin> set q"
  shows "py_format (p @ ''%s'' @ q) a = Inr (p @ a @ q)"
proof -
  have "format_from q a True = Inr q"
    using format_from_plain [OF assms(2), of "[]" a True] by (simp add: prepend_def)
  then have "format_from (''%s'' @ q) a False = Inr (a @ q)"
    by (simp add: prepend_def)
  then show ?thesis
    using format_from_plain [OF assms(1), of "''%s'' @ q" a False]
    by (simp add: py_format_def prepend_def)
qed

lemma py_format_nonempty:
  "py_format f a = Inr c \<Longrightarrow> a \<noteq> [] \<Longrightarrow> c \<noteq> []"
  unfolding py_format_def
  by (cases "(f, a, False)" rule: format_from.cases)
     (auto simp: prepend_def split: sum.splits if_splits)

lemma xref_local_default_format:
  "py_format xref_local_default a = Inr (''Ticket '' @ a @ '' was marked as related to this ticket'')"
  using py_format_one [of "''Ticket ''" "'' was marked as related to this ticket''" a]
  by (simp add: xref_local_default_def)

lemma xref_default_format:
  "py_format xref_default a = Inr (''Ticket '' @ a @ '' is related to this ticket'')"
  using py_format_one [of "''Ticket ''" "'' is related to this ticket''" a]
  by (simp add: xref_default_def)

subsection \<open>Cross-reference: computing the changes\<close>

text \<open>
  C1, as the claim states it, fails on the order: with the submitted comment \<open>old\<close>
  and the reference \<open>#5\<close>, the new sentence comes first, then \<open>[[BR]]\<close>, then the
  submitted comment.
\<close>

theorem xref_sentence_precedes_old_comment:
  "fst (get_ticket_changes demo_host XRef demo_ticket ''link'' demo_state) = Inr Map.empty
   \<and> req_args (snd (get_ticket_changes demo_host XRef demo_ticket ''link'' demo_state)) ''comment''
       = Some (AStr ''Ticket #5 was marked as related to this ticket[[BR]]old'')
   \<and> ''Ticket #5 was marked as related to this ticket[[BR]]old''
       \<noteq> ''old[[BR]]Ticket #5 was marked as related to this ticket''"
  by (simp add: get_ticket_changes_def xref_changes_def demo_state_def demo_host_def
        xref_id_def py_strip_chars_def model_Ticket_def id_is_valid_def xref_local_default_def
        py_format_def prepend_def join_comment_def truthy_def or_empty_def py_str_arg_def)

text \<open>
  C1, amended.  Outside preview mode, when the submitted reference names a stored
  ticket and the template formats, the sentence is written to the submitted comment
  in this order: the new sentence first, then, when the submitted comment is not
  empty, \<open>[[BR]]\<close> and the submitted comment.  Only the form values change (the ticket
  store and the ticket are left as they were) and the change-set is empty.  With no
  \<open>xref_local\<close> configured the sentence is the default one around the display id.
\<close>

theorem xref_comment_written:
  assumes "req_args s ''preview'' = None"
      and "req_args s (xref_id action) = Some (AStr submitted)"
      and "ticket_num = py_strip_chars ''#'' submitted"
      and "model_Ticket h s ticket_num = Inr x"
      and "actions h action = Some attrs"
      and "py_format (case attrs ''xref_local'' of None \<Rightarrow> xref_local_default | Some f \<Rightarrow> f)
             (''#'' @ ticket_num) = Inr sentence"
  shows "get_ticket_changes h XRef t action s =
           (Inr Map.empty,
            s\<lparr>req_args := (req_args s)(''comment'' \<mapsto> AStr
                 (case req_args s ''comment'' of
                    None \<Rightarrow> sentence
                  | Some (AStr oldcomment) \<Rightarrow>
                      if oldcomment = [] then sentence
                      else sentence @ ''[[BR]]'' @ oldcomment
                  | Some (ABool b) \<Rightarrow>
                      if b then sentence @ ''[[BR]]'' @ ''True'' else sentence))\<rparr>)
         \<and> (attrs ''xref_local'' = None \<longrightarrow>
              sentence = ''Ticket #'' @ ticket_num @ '' was marked as related to this ticket'')"
proof -
  let ?f = "case attrs ''xref_local'' of None \<Rightarrow> xref_local_default | Some f \<Rightarrow> f"
  have ne: "?f \<noteq> []"
    using assms(6) by (auto simp: py_format_def)
  have j: "join_comment sentence (req_args s ''comment'') =
             (case req_args s ''comment'' of
                    None \<Rightarrow> sentence
                  | Some (AStr oldcomment) \<Rightarrow>
                      if oldcomment = [] then sentence
                      else sentence @ ''[[BR]]'' @ oldcomment
                  | Some (ABool b) \<Rightarrow>
                      if b then sentence @ ''[[BR]]'' @ ''True'' else sentence)"
    by (simp add: join_comment_def truthy_def or_empty_def py_str_arg_def
          split: option.splits argval.splits)
  have a: "get_ticket_changes h XRef t action s =
           (Inr Map.empty,
            s\<lparr>req_args := (req_args s)(''comment'' \<mapsto>
                 AStr (join_comment sentence (req_args s ''comment'')))\<rparr>)"
    using assms(1,2,4,5,6) ne unfolding assms(3)
    by (simp add: get_ticket_changes_def xref_changes_def)
  have b: "attrs ''xref_local'' = None \<longrightarrow>
              sentence = ''Ticket #'' @ ticket_num @ '' was marked as related to this ticket''"
    using assms(6) xref_local_default_format [of "''#'' @ ticket_num"] by auto
  from a b show ?thesis unfolding j by simp
qed

theorem xref_comment_written_witness:
  "get_ticket_changes demo_host XRef demo_ticket ''link'' demo_state =
     (Inr Map.empty,
      demo_state\<lparr>req_args := (req_args demo_state)(''comment'' \<mapsto>
         AStr ''Ticket #5 was marked as related to this ticket[[BR]]old'')\<rparr>)"
proof -
  have p: "req_args demo_state ''preview'' = None"
    by (simp add: demo_state_def)
  have i: "req_args demo_state (xref_id ''link'') = Some (AStr ''#5'')"
    by (simp add: demo_state_def xref_id_def)
  have n: "''5'' = py_strip_chars ''#'' ''#5''"
    by (simp add: py_strip_chars_def)
  have m: "model_Ticket demo_host demo_state ''5'' = Inr (5, other_ticket)"
    by (simp add: model_Ticket_def id_is_valid_def demo_host_def demo_state_def)
  have a: "actions demo_host ''link'' = Some Map.empty"
    by (simp add: demo_host_def)
  have f: "py_format (case Map.empty ''xref_local'' of None \<Rightarrow> xref_local_default | Some f \<Rightarrow> f)
             (''#'' @ ''5'') = Inr ''Ticket #5 was marked as related to this ticket''"
    using xref_local_default_format [of "''#5''"] by simp
  have c: "req_args demo_state ''comment'' = Some (AStr ''old'')"
    by (simp add: demo_state_def)
  from xref_comment_written [OF p i n m a f, of demo_ticket]
  show ?thesis by (simp add: c)
qed

text \<open>
  C5.  Outside preview mode, a submitted reference that is not a number, or that is
  a number without a stored ticket, stores \<open>True\<close> under \<open>'preview'\<close>, attaches to the
  request, once, the warning that names the submitted reference and returns the empty
  change-set.  In preview mode the call returns the empty change-set and leaves the
  state as it was.
\<close>

theorem xref_validation:
  "(req_args s ''preview'' = None
      \<and> req_args s (xref_id action) = Some (AStr submitted)
      \<and> num = py_strip_chars ''#'' submitted
      \<and> int_of h num = None
      \<and> w = ''Unable to cross-reference Ticket #'' @ num
               @ '' (Ticket '' @ num @ '' does not exist.).''
    \<longrightarrow> get_ticket_changes h XRef t action s =
          (Inr Map.empty,
           s\<lparr>req_args := (req_args s)(''preview'' \<mapsto> ABool True),
             req_warnings :=
               (if w \<in> set (req_warnings s) then req_warnings s else req_warnings s @ [w])\<rparr>))
   \<and> (req_args s ''preview'' = None
      \<and> req_args s (xref_id action) = Some (AStr submitted)
      \<and> num = py_strip_chars ''#'' submitted
      \<and> int_of h num = Some n
      \<and> tickets s n = None
      \<and> w = ''Unable to cross-reference Ticket #'' @ num
               @ '' (Ticket '' @ num @ '' does not exist.).''
    \<longrightarrow> get_ticket_changes h XRef t action s =
          (Inr Map.empty,
           s\<lparr>req_args := (req_args s)(''preview'' \<mapsto> ABool True),
             req_warnings :=
               (if w \<in> set (req_warnings s) then req_warnings s else req_warnings s @ [w])\<rparr>))
   \<and> (req_args s ''preview'' \<noteq> None
    \<longrightarrow> get_ticket_changes h XRef t action s = (Inr Map.empty, s))"
proof (intro conjI impI)
  assume a: "req_args s ''preview'' = None
      \<and> req_args s (xref_id action) = Some (AStr submitted)
      \<and> num = py_strip_chars ''#'' submitted
      \<and> int_of h num = None
      \<and> w = ''Unable to cross-reference Ticket #'' @ num
               @ '' (Ticket '' @ num @ '' does not exist.).''"
  then have p: "req_args s ''preview'' = None"
    and i: "req_args s (xref_id action) = Some (AStr submitted)"
    and n: "py_strip_chars ''#'' submitted = num"
    and k: "int_of h num = None"
    and w: "''Unable to cross-reference Ticket #'' @ num
               @ '' (Ticket '' @ num @ '' does not exist.).'' = w"
    by blast+
  have m: "model_Ticket h s num = Inl (ResourceNotFound (missing_message num))"
    using k by (simp add: model_Ticket_def id_is_valid_def)
  have u: "unable_warning num (missing_message num) = w"
    using w by (simp add: unable_warning_def missing_message_def)
  from p i m show "get_ticket_changes h XRef t action s =
          (Inr Map.empty,
           s\<lparr>req_args := (req_args s)(''preview'' \<mapsto> ABool True),
             req_warnings :=
               (if w \<in> set (req_warnings s) then req_warnings s else req_warnings s @ [w])\<rparr>)"
    by (simp add: get_ticket_changes_def xref_changes_def add_warning_def n u)
next
  assume a: "req_args s ''preview'' = None
      \<and> req_args s (xref_id action) = Some (AStr submitted)
      \<and> num = py_strip_chars ''#'' submitted
      \<and> int_of h num = Some n
      \<and> tickets s n = None
      \<and> w = ''Unable to cross-reference Ticket #'' @ num
               @ '' (Ticket '' @ num @ '' does not exist.).''"
  then have p: "req_args s ''preview'' = None"
    and i: "req_args s (xref_id action) = Some (AStr submitted)"
    and n: "py_strip_chars ''#'' submitted = num"
    and k: "int_of h num = Some n \<and> tickets s n = None"
    and w: "''Unable to cross-reference Ticket #'' @ num
               @ '' (Ticket '' @ num @ '' does not exist.).'' = w"
    by blast+
  have m: "model_Ticket h s num = Inl (ResourceNotFound (missing_message num))"
    using k by (simp add: model_Ticket_def id_is_valid_def)
  have u: "unable_warning num (missing_message num) = w"
    using w by (simp add: unable_warning_def missing_message_def)
  from p i m show "get_ticket_changes h XRef t action s =
          (Inr Map.empty,
           s\<lparr>req_args := (req_args s)(''preview'' \<mapsto> ABool True),
             req_warnings :=
               (if w \<in> set (req_warnings s) then req_warnings s else req_warnings s @ [w])\<rparr>)"
    by (simp add: get_ticket_changes_def xref_changes_def add_warning_def n u)
next
  assume "req_args s ''preview'' \<noteq> None"
  then show "get_ticket_changes h XRef t action s = (Inr Map.empty, s)"
    by (simp add: get_ticket_changes_def xref_changes_def)
qed

theorem xref_validation_witness:
  "get_ticket_changes demo_host XRef demo_ticket ''link''
       (demo_state\<lparr>req_args := [''action_link_xref'' \<mapsto> AStr ''#abc'']\<rparr>) =
     (Inr Map.empty,
      demo_state\<lparr>req_args := [''action_link_xref'' \<mapsto> AStr ''#abc'', ''preview'' \<mapsto> ABool True],
         req_warnings :=
           [''Unable to cross-reference Ticket #abc (Ticket abc does not exist.).'']\<rparr>)
   \<and> get_ticket_changes demo_host XRef demo_ticket ''link''
       (demo_state\<lparr>req_args := [''action_link_xref'' \<mapsto> AStr ''#7'']\<rparr>) =
     (Inr Map.empty,
      demo_state\<lparr>req_args := [''action_link_xref'' \<mapsto> AStr ''#7'', ''preview'' \<mapsto> ABool True],
         req_warnings := [''Unable to cross-reference Ticket #7 (Ticket 7 does not exist.).'']\<rparr>)
   \<and> get_ticket_changes demo_host XRef demo_ticket ''link''
       (demo_state\<lparr>req_args := [''action_link_xref'' \<mapsto> AStr ''#abc'', ''preview'' \<mapsto> AStr ''Preview'']\<rparr>) =
     (Inr Map.empty,
      demo_state\<lparr>req_args := [''action_link_xref'' \<mapsto> AStr ''#abc'', ''preview'' \<mapsto> AStr ''Preview'']\<rparr>)"
proof -
  let ?s1 = "demo_state\<lparr>req_args := [''action_link_xref'' \<mapsto> AStr ''#abc'']\<rparr>"
  let ?s2 = "demo_state\<lparr>req_args := [''action_link_xref'' \<mapsto> AStr ''#7'']\<rparr>"
  let ?s3 = "demo_state\<lparr>req_args := [''action_link_xref'' \<mapsto> AStr ''#abc'', ''preview'' \<mapsto> AStr ''Preview'']\<rparr>"
  have a: "get_ticket_changes demo_host XRef demo_ticket ''link'' ?s1 =
     (Inr Map.empty,
      demo_state\<lparr>req_args := [''action_link_xref'' \<mapsto> AStr ''#abc'', ''preview'' \<mapsto> ABool True],
         req_warnings :=
           [''Unable to cross-reference Ticket #abc (Ticket abc does not exist.).'']\<rparr>)"
    using xref_validation [where s = ?s1 and action = "''link''" and submitted = "''#abc''"
            and num = "''abc''" and h = demo_host and t = demo_ticket
            and w = "''Unable to cross-reference Ticket #abc (Ticket abc does not exist.).''"]
    by (simp add: demo_state_def demo_host_def xref_id_def py_strip_chars_def)
  have b: "get_ticket_changes demo_host XRef demo_ticket ''link'' ?s2 =
     (Inr Map.empty,
      demo_state\<lparr>req_args := [''action_link_xref'' \<mapsto> AStr ''#7'', ''preview'' \<mapsto> ABool True],
         req_warnings := [''Unable to cross-reference Ticket #7 (Ticket 7 does not exist.).'']\<rparr>)"
    using xref_validation [where s = ?s2 and action = "''link''" and submitted = "''#7''"
            and num = "''7''" and h = demo_host and t = demo_ticket and n = 7
            and w = "''Unable to cross-reference Ticket #7 (Ticket 7 does not exist.).''"]
    by (simp add: demo_state_def demo_host_def xref_id_def py_strip_chars_def)
  have c: "get_ticket_changes demo_host XRef demo_ticket ''link'' ?s3 = (Inr Map.empty, ?s3)"
    using xref_validation [where s = ?s3 and action = "''link''" and h = demo_host
            and t = demo_ticket]
    by (simp add: demo_state_def)
  from a b c show ?thesis by simp
qed

subsection \<open>Cross-reference: the side effect\<close>

text \<open>
  C6, as the claim states it, fails for a template that has no place for the id: with
  \<open>link.xref = See also\<close> and the stored ticket 5 submitted, building the comment
  raises \<open>TypeError\<close> before the referenced ticket is loaded; nothing is saved, no
  notification is dispatched and the exception reaches the caller.
\<close>

theorem xref_side_effects_template_without_slot:
  "apply_action_side_effects
       (demo_host\<lparr>actions := [''link'' \<mapsto> [''xref'' \<mapsto> ''See also'']]\<rparr>)
       XRef demo_ticket ''link'' demo_state
     = (Inl TypeError, demo_state)"
  by (simp add: apply_action_side_effects_def xref_side_effects_def demo_state_def
        demo_host_def xref_id_def py_format_def prepend_def)

text \<open>
  C6, amended.  With a submitted reference that names a stored ticket and a template
  that formats with the id of the primary ticket, the side effect saves on the
  referenced ticket the comment built from \<open><action>.xref\<close> (by default
  \<open>Ticket %s is related to this ticket\<close> around the id of the primary ticket) with
  the current time and the acting user, dispatches exactly one \<open>changed\<close> event for
  it and returns normally; when the dispatch raises, the exception is logged with the
  submitted ticket number and is not raised to the caller.
\<close>

theorem xref_side_effects_reciprocal:
  assumes "req_args s (xref_id action) = Some (AStr submitted)"
      and "ticketnum = py_strip_chars ''#'' submitted"
      and "actions h action = Some attrs"
      and "py_format (case attrs ''xref'' of None \<Rightarrow> xref_default | Some f \<Rightarrow> f)
             (''#'' @ py_str_id (tid t)) = Inr comment"
      and "int_of h ticketnum = Some n \<and> 0 < n \<and> n \<le> 2 ^ 31"
      and "tickets s n = Some xticket"
      and "ev = \<lparr>category = ''changed'', target = n, etime = now h, eauthor = authname h\<rparr>"
  shows "apply_action_side_effects h XRef t action s =
           (Inr (),
            s\<lparr>tickets := (tickets s)(n \<mapsto>
                 xticket\<lparr>changelog := changelog xticket @ [(now h, authname h, comment)]\<rparr>),
              notified := notified s @ [ev],
              env_log := env_log s @
                (case notify h ev of
                   None \<Rightarrow> []
                 | Some e \<Rightarrow> [(Exception, notify_failure_message, [LStr ticketnum, LExn e])])\<rparr>)
         \<and> (attrs ''xref'' = None \<longrightarrow>
              comment = ''Ticket #'' @ py_str_id (tid t) @ '' is related to this ticket'')"
proof -
  have ne: "comment \<noteq> []"
    using py_format_nonempty [OF assms(4)] by simp
  have m: "model_Ticket h s (py_strip_chars ''#'' submitted) = Inr (n, xticket)"
    using assms(2,5,6) by (simp add: model_Ticket_def id_is_valid_def)
  have a: "apply_action_side_effects h XRef t action s =
           (Inr (),
            s\<lparr>tickets := (tickets s)(n \<mapsto>
                 xticket\<lparr>changelog := changelog xticket @ [(now h, authname h, comment)]\<rparr>),
              notified := notified s @ [ev],
              env_log := env_log s @
                (case notify h ev of
                   None \<Rightarrow> []
                 | Some e \<Rightarrow> [(Exception, notify_failure_message, [LStr ticketnum, LExn e])])\<rparr>)"
    using assms(1,3,4) m ne unfolding assms(2,7)
    by (simp add: apply_action_side_effects_def xref_side_effects_def save_changes_def
          log_to_def Let_def split: option.splits)
  have b: "attrs ''xref'' = None \<longrightarrow>
              comment = ''Ticket #'' @ py_str_id (tid t) @ '' is related to this ticket''"
    using assms(4) xref_default_format [of "''#'' @ py_str_id (tid t)"] by auto
  from a b show ?thesis by simp
qed

theorem xref_side_effects_reciprocal_witness:
  "apply_action_side_effects demo_host XRef demo_ticket ''link'' demo_state =
     (Inr (),
      demo_state\<lparr>
        tickets := [5 \<mapsto> other_ticket\<lparr>changelog :=
                      [(1000, ''alice'', ''Ticket #1 is related to this ticket'')]\<rparr>],
        notified := [\<lparr>category = ''changed'', target = 5, etime = 1000, eauthor = ''alice''\<rparr>],
        env_log := [(Exception, notify_failure_message,
                     [LStr ''5'', LExn (OtherError ''smtp down'')])]\<rparr>)"
proof -
  have i: "req_args demo_state (xref_id ''link'') = Some (AStr ''#5'')"
    by (simp add: demo_state_def xref_id_def)
  have n: "''5'' = py_strip_chars ''#'' ''#5''"
    by (simp add: py_strip_chars_def)
  have a: "actions demo_host ''link'' = Some Map.empty"
    by (simp add: demo_host_def)
  have d: "py_str_id (tid demo_ticket) = ''1''"
    by (simp add: demo_ticket_def py_str_id_def py_str_int_def digits.simps)
  have f: "py_format (case Map.empty ''xref'' of None \<Rightarrow> xref_default | Some f \<Rightarrow> f)
             (''#'' @ py_str_id (tid demo_ticket)) = Inr ''Ticket #1 is related to this ticket''"
    using xref_default_format [of "''#1''"] by (simp add: d)
  have k: "int_of demo_host ''5'' = Some 5 \<and> (0::int) < 5 \<and> (5::int) \<le> 2 ^ 31"
    by (simp add: demo_host_def)
  have x: "tickets demo_state 5 = Some other_ticket"
    by (simp add: demo_state_def)
  have e: "\<lparr>category = ''changed'', target = 5, etime = 1000, eauthor = ''alice''\<rparr>
             = \<lparr>category = ''changed'', target = 5, etime = now demo_host,
                 eauthor = authname demo_host\<rparr>"
    by (simp add: demo_host_def)
  have nf: "notify demo_host \<lparr>category = ''changed'', target = 5, etime = 1000, eauthor = ''alice''\<rparr>
              = Some (OtherError ''smtp down'')"
    by (simp add: demo_host_def)
  have nw: "now demo_host = 1000" "authname demo_host = ''alice''"
    by (simp_all add: demo_host_def)
  have st: "tickets demo_state = [5 \<mapsto> other_ticket]" "notified demo_state = []"
      "env_log demo_state = []" "changelog other_ticket = []"
    by (simp_all add: demo_state_def other_ticket_def)
  from xref_side_effects_reciprocal [OF i n a f k x e]
  show ?thesis by (simp add: nf nw st)
qed

subsection \<open>External process\<close>

lemma probe_extensions:
  "probe h script extensions =
     (if path_exists h script then Some script
      else if path_exists h (script @ ''.exe'') then Some (script @ ''.exe'')
      else if path_exists h (script @ ''.cmd'') then Some (script @ ''.cmd'')
      else if path_exists h (script @ ''.bat'') then Some (script @ ''.bat'')
      else None)"
  by (simp add: extensions_def)

text \<open>
  C7.  The script is \<open>os.path.join(env.path, 'hooks', action)\<close>, that is
  \<open><environment-root>/hooks/<action>\<close> for a root without a trailing slash and an
  action that does not start with one; the extensions \<open>''\<close>, \<open>.exe\<close>, \<open>.cmd\<close>,
  \<open>.bat\<close> are probed in this order and the first existing path is used.  When none
  exists, an error naming the action and the hooks directory is logged and no process
  is spawned.  When the script exits with a non-zero code, the code is logged as an
  error, the call returns normally, no warning is added to the request, the ticket
  store is unchanged and the operation's change-set is still empty.
\<close>

theorem run_external_resolution:
  assumes "script = path_join (path_join (env_path h) ''hooks'') action"
      and "s1 = s\<lparr>std_out := std_out s @ [''running external script for '' @ action]\<rparr>"
      and "cmd = [found, py_str_id (tid t), authname h]"
      and "s2 = s1\<lparr>spawned := spawned s @ [cmd],
                     env_log := env_log s @ [(Error, bad_exit_message, [LStr found, LInt retval])]\<rparr>"
  shows "(env_path h \<noteq> [] \<and> last (env_path h) \<noteq> CHR ''/'' \<and> take 1 action \<noteq> ''/''
            \<longrightarrow> script = env_path h @ ''/hooks/'' @ action)
       \<and> probe h script extensions =
            (if path_exists h script then Some script
             else if path_exists h (script @ ''.exe'') then Some (script @ ''.exe'')
             else if path_exists h (script @ ''.cmd'') then Some (script @ ''.cmd'')
             else if path_exists h (script @ ''.bat'') then Some (script @ ''.bat'')
             else None)
       \<and> (probe h script extensions = None
            \<longrightarrow> apply_action_side_effects h RunExternal t action s =
                  (Inr (),
                   s1\<lparr>env_log := env_log s @
                      [(Error, not_found_message,
                        [LStr action, LStr (path_join (env_path h) ''hooks'')])]\<rparr>))
       \<and> (probe h script extensions = Some found \<and> call h cmd = Inr retval \<and> retval \<noteq> 0
            \<longrightarrow> apply_action_side_effects h RunExternal t action s = (Inr (), s2)
                \<and> req_warnings s2 = req_warnings s
                \<and> tickets s2 = tickets s
                \<and> get_ticket_changes h RunExternal t action s2 = (Inr Map.empty, s2))"
proof -
  have a: "env_path h \<noteq> [] \<and> last (env_path h) \<noteq> CHR ''/'' \<and> take 1 action \<noteq> ''/''
            \<longrightarrow> script = env_path h @ ''/hooks/'' @ action"
    unfolding assms(1) by (cases action) (auto simp: path_join_def)
  have b: "probe h script extensions = None
            \<longrightarrow> apply_action_side_effects h RunExternal t action s =
                  (Inr (),
                   s1\<lparr>env_log := env_log s @
                      [(Error, not_found_message,
                        [LStr action, LStr (path_join (env_path h) ''hooks'')])]\<rparr>)"
    unfolding assms(1,2)
    by (simp add: apply_action_side_effects_def run_external_side_effects_def log_to_def Let_def)
  have c: "probe h script extensions = Some found \<and> call h cmd = Inr retval \<and> retval \<noteq> 0
            \<longrightarrow> apply_action_side_effects h RunExternal t action s = (Inr (), s2)"
    unfolding assms(1,2,3,4)
    by (simp add: apply_action_side_effects_def run_external_side_effects_def log_to_def Let_def)
  have d: "req_warnings s2 = req_warnings s \<and> tickets s2 = tickets s
            \<and> get_ticket_changes h RunExternal t action s2 = (Inr Map.empty, s2)"
    unfolding assms(2,4) by (simp add: get_ticket_changes_def run_external_changes_def)
  from a b c d probe_extensions [of h script] show ?thesis by simp
qed

theorem run_external_resolution_witness:
  "apply_action_side_effects demo_host RunExternal demo_ticket ''deploy'' demo_state =
     (Inr (),
      demo_state\<lparr>std_out := [''running external script for deploy''],
        spawned := [[''/srv/trac/hooks/deploy.cmd'', ''1'', ''alice'']],
        env_log := [(Error, bad_exit_message,
                     [LStr ''/srv/trac/hooks/deploy.cmd'', LInt 3])]\<rparr>)
   \<and> apply_action_side_effects demo_host RunExternal demo_ticket ''link'' demo_state =
     (Inr (),
      demo_state\<lparr>std_out := [''running external script for link''],
        env_log := [(Error, not_found_message, [LStr ''link'', LStr ''/srv/trac/hooks''])]\<rparr>)"
proof -
  have d: "py_str_id (tid demo_ticket) = ''1''"
    by (simp add: demo_ticket_def py_str_id_def py_str_int_def digits.simps)
  have hooks: "path_join (env_path demo_host) ''hooks'' = ''/srv/trac/hooks''"
    by (simp add: path_join_def demo_host_def)
  have p1: "path_join ''/srv/trac/hooks'' ''deploy'' = ''/srv/trac/hooks/deploy''"
    and p2: "path_join ''/srv/trac/hooks'' ''link'' = ''/srv/trac/hooks/link''"
    by (simp_all add: path_join_def)
  have e: "path_exists demo_host = (\<lambda>p. p = ''/srv/trac/hooks/deploy.cmd'')"
    and c: "call demo_host = (\<lambda>c. Inr 3)" and au: "authname demo_host = ''alice''"
    by (simp_all add: demo_host_def)
  have st: "std_out demo_state = []" "spawned demo_state = []" "env_log demo_state = []"
    by (simp_all add: demo_state_def)
  have a: "apply_action_side_effects demo_host RunExternal demo_ticket ''deploy'' demo_state =
     (Inr (),
      demo_state\<lparr>std_out := [''running external script for deploy''],
        spawned := [[''/srv/trac/hooks/deploy.cmd'', ''1'', ''alice'']],
        env_log := [(Error, bad_exit_message,
                     [LStr ''/srv/trac/hooks/deploy.cmd'', LInt 3])]\<rparr>)"
    using run_external_resolution [OF refl refl refl refl,
            where h = demo_host and action = "''deploy''" and s = demo_state
              and t = demo_ticket and found = "''/srv/trac/hooks/deploy.cmd''" and retval = 3]
    by (simp add: d hooks p1 e c au st)
  have b: "apply_action_side_effects demo_host RunExternal demo_ticket ''link'' demo_state =
     (Inr (),
      demo_state\<lparr>std_out := [''running external script for link''],
        env_log := [(Error, not_found_message, [LStr ''link'', LStr ''/srv/trac/hooks''])]\<rparr>)"
    using run_external_resolution [OF refl refl refl refl,
            where h = demo_host and action = "''link''" and s = demo_state
              and t = demo_ticket and found = "''x''" and retval = 3]
    by (simp add: d hooks p2 e c au st)
  from a b show ?thesis by simp
qed

subsection \<open>Repeating the computation of the changes\<close>










end
